theory Spec2Isabelle
  imports Complex_Main
begin

section \<open>Timeseries anomaly detection notebook: the array arithmetic\<close>

text \<open>
  The notebook \<^verbatim>\<open>examples/timeseries/ipynb/timeseries_anomaly_detection.ipynb\<close> is a
  linear script. Its own arithmetic is: normalisation of the value column, the sliding
  windows of \<^verbatim>\<open>create_sequences\<close>, the per-window mean absolute error, the threshold
  (maximum of the training errors), the per-window anomaly mask and the reduction of that
  mask to data indices. These are embedded here.

  Conventions of the embedding.
  \<^item> Python integers are \<^typ>\<open>int\<close>; indexing and slicing follow Python (negative
    indices count from the end, slices clamp, an index out of range raises).
  \<^item> Array entries are \<^typ>\<open>real\<close>: arithmetic is exact, rounding of float64 is not
    modelled.
  \<^item> An n-dimensional array is a nested list; a \<open>(k, t, 1)\<close> tensor is a list of \<open>k\<close>
    windows, each a list of \<open>t\<close> one-element rows.
  \<^item> An exception is a value \<open>Inl e\<close> of the result.
\<close>

subsection \<open>Python and numpy primitives\<close>

datatype py_error = AxisError | ValueError | IndexError | InvalidValue

text \<open>\<^verbatim>\<open>range(a, b)\<close>: the integers from \<open>a\<close> up to \<open>b - 1\<close>.\<close>

definition py_range :: "int \<Rightarrow> int \<Rightarrow> int list" where
  "py_range a b = [a..b - 1]"

text \<open>\<^verbatim>\<open>xs[i:j]\<close>: both bounds are clamped into \<open>0..len(xs)\<close>, a negative bound counts
  from the end.\<close>

definition py_slice :: "'a list \<Rightarrow> int \<Rightarrow> int \<Rightarrow> 'a list" where
  "py_slice xs i j =
     (let n = int (length xs);
          lo = (if i < 0 then max 0 (n + i) else min n i);
          hi = (if j < 0 then max 0 (n + j) else min n j)
      in take (nat (hi - lo)) (drop (nat lo) xs))"

text \<open>\<^verbatim>\<open>xs[i]\<close> on a list: IndexError outside \<open>-len(xs) .. len(xs) - 1\<close>.\<close>

definition py_getitem :: "'a list \<Rightarrow> int \<Rightarrow> py_error + 'a" where
  "py_getitem xs i =
     (if 0 \<le> i \<and> i < int (length xs) then Inr (xs ! nat i)
      else if - int (length xs) \<le> i \<and> i < 0 then Inr (xs ! nat (int (length xs) + i))
      else Inl IndexError)"

text \<open>
  \<^verbatim>\<open>np.expand_dims(output, axis=2)\<close> on a Python list of one-dimensional slices. The list
  is first converted to an array. An empty list converts to an array of shape \<open>(0,)\<close>,
  for which axis 2 is out of bounds: numpy raises AxisError. Slices of different lengths
  do not form an array (ValueError). Otherwise the array has shape \<open>(k, t)\<close> and the
  result has shape \<open>(k, t, 1)\<close>: every entry becomes a one-element row.
\<close>

definition np_expand_dims_axis2 :: "'a list list \<Rightarrow> py_error + 'a list list list" where
  "np_expand_dims_axis2 output =
     (case output of
        [] \<Rightarrow> Inl AxisError
      | r # rs \<Rightarrow>
          if list_all (\<lambda>s. length s = length r) rs
          then Inr (map (map (\<lambda>v. [v])) output)
          else Inl ValueError)"

subsection \<open>Sliding windows\<close>

text \<open>
  \<^verbatim>\<open>
  TIME_STEPS = 288

  def create_sequences(values, time_steps=TIME_STEPS):
      output = []
      for i in range(len(values) - time_steps):
          output.append(values[i : (i + time_steps)])
      return np.expand_dims(output, axis=2)
  \<close>
\<close>

definition TIME_STEPS :: int where
  "TIME_STEPS = 288"

fun create_sequences_loop :: "'a list \<Rightarrow> int \<Rightarrow> int list \<Rightarrow> 'a list list \<Rightarrow> 'a list list" where
  "create_sequences_loop values time_steps [] output = output"
| "create_sequences_loop values time_steps (i # is) output =
     create_sequences_loop values time_steps is (output @ [py_slice values i (i + time_steps)])"

definition create_sequences :: "'a list \<Rightarrow> int \<Rightarrow> py_error + 'a list list list" where
  "create_sequences values time_steps =
     np_expand_dims_axis2
       (create_sequences_loop values time_steps
          (py_range 0 (int (length values) - time_steps)) [])"

text \<open>Shape of a three-dimensional tensor given as a nested list.\<close>

definition has_shape3 :: "'a list list list \<Rightarrow> nat \<Rightarrow> nat \<Rightarrow> nat \<Rightarrow> bool" where
  "has_shape3 t k m f =
     (length t = k \<and> list_all (\<lambda>w. length w = m \<and> list_all (\<lambda>r. length r = f) w) t)"

subsection \<open>Reconstruction error, threshold and anomaly mask\<close>

text \<open>
  \<^verbatim>\<open>
  x_train_pred = model.predict(x_train)
  train_mae_loss = np.mean(np.abs(x_train_pred - x_train), axis=1)
  threshold = np.max(train_mae_loss)
  ...
  x_test_pred = model.predict(x_test)
  test_mae_loss = np.mean(np.abs(x_test_pred - x_test), axis=1)
  test_mae_loss = test_mae_loss.reshape((-1))
  anomalies = (test_mae_loss > threshold).tolist()
  \<close>
  The trained network is not part of the arithmetic: \<open>predict\<close> is a parameter, any
  function from tensors to tensors.

  Tensors are rectangular nested lists. The dimensions are read off the first window and
  its first row.
\<close>

definition dim0 :: "'a list list list \<Rightarrow> nat" where
  "dim0 t = length t"

definition dim1 :: "'a list list list \<Rightarrow> nat" where
  "dim1 t = (case t of [] \<Rightarrow> 0 | w # _ \<Rightarrow> length w)"

definition dim2 :: "'a list list list \<Rightarrow> nat" where
  "dim2 t = (case t of [] \<Rightarrow> 0 | w # _ \<Rightarrow> (case w of [] \<Rightarrow> 0 | r # _ \<Rightarrow> length r))"

text \<open>
  numpy broadcasting of two dimensions: equal dimensions stay, a dimension 1 is
  stretched to the other one, anything else raises ValueError.
\<close>

definition bc_dim :: "nat \<Rightarrow> nat \<Rightarrow> py_error + nat" where
  "bc_dim a b =
     (if a = b then Inr a
      else if a = 1 then Inr b
      else if b = 1 then Inr a
      else Inl ValueError)"

text \<open>Reading position \<open>i\<close> along an axis that may have been stretched from length 1.\<close>

definition bc_nth :: "'a list \<Rightarrow> nat \<Rightarrow> 'a" where
  "bc_nth xs i = (if length xs = 1 then xs ! 0 else xs ! i)"

text \<open>\<^verbatim>\<open>a - b\<close> on two three-dimensional arrays.\<close>

definition np_subtract ::
  "real list list list \<Rightarrow> real list list list \<Rightarrow> py_error + real list list list" where
  "np_subtract a b =
     (case bc_dim (dim0 a) (dim0 b) of
        Inl e \<Rightarrow> Inl e
      | Inr d0 \<Rightarrow>
     (case bc_dim (dim1 a) (dim1 b) of
        Inl e \<Rightarrow> Inl e
      | Inr d1 \<Rightarrow>
     (case bc_dim (dim2 a) (dim2 b) of
        Inl e \<Rightarrow> Inl e
      | Inr d2 \<Rightarrow>
          Inr (map (\<lambda>i. map (\<lambda>j. map (\<lambda>c.
                 bc_nth (bc_nth (bc_nth a i) j) c - bc_nth (bc_nth (bc_nth b i) j) c)
               [0..<d2]) [0..<d1]) [0..<d0]))))"

definition np_abs :: "real list list list \<Rightarrow> real list list list" where
  "np_abs a = map (map (map abs)) a"

text \<open>
  \<^verbatim>\<open>np.mean(a, axis=1)\<close> on a \<open>(k, m, f)\<close> array: a \<open>(k, f)\<close> array of the means over
  the middle axis. For \<open>m = 0\<close> numpy divides zero by zero: it warns and stores nan;
  the model ends there with \<open>InvalidValue\<close>, since \<^typ>\<open>real\<close> has no nan.
\<close>

definition np_mean_axis1 :: "real list list list \<Rightarrow> py_error + real list list" where
  "np_mean_axis1 a =
     (if a = [] then Inr []
      else if dim1 a = 0 then Inl InvalidValue
      else Inr (map (\<lambda>w. map (\<lambda>c. sum_list (map (\<lambda>r. r ! c) w) / real (length w))
                           [0..<dim2 a]) a))"

definition mae_loss ::
  "real list list list \<Rightarrow> real list list list \<Rightarrow> py_error + real list list" where
  "mae_loss pred x =
     (case np_subtract pred x of
        Inl e \<Rightarrow> Inl e
      | Inr d \<Rightarrow> np_mean_axis1 (np_abs d))"

text \<open>\<^verbatim>\<open>np.max\<close> of a two-dimensional array: the maximum of all entries; ValueError on
  an array without entries.\<close>

definition np_max :: "real list list \<Rightarrow> py_error + real" where
  "np_max m =
     (case concat m of
        [] \<Rightarrow> Inl ValueError
      | l # ls \<Rightarrow> Inr (fold max ls l))"

definition get_threshold ::
  "(real list list list \<Rightarrow> real list list list) \<Rightarrow> real list list list \<Rightarrow> py_error + real" where
  "get_threshold predict x_train =
     (case mae_loss (predict x_train) x_train of
        Inl e \<Rightarrow> Inl e
      | Inr train_mae_loss \<Rightarrow> np_max train_mae_loss)"

text \<open>\<^verbatim>\<open>(test_mae_loss > threshold).tolist()\<close>\<close>

definition classify :: "real list \<Rightarrow> real \<Rightarrow> bool list" where
  "classify losses threshold = map (\<lambda>l. l > threshold) losses"

text \<open>The cells from the training loss to the anomaly mask, in the order of the script.\<close>

definition detect_anomalies ::
  "(real list list list \<Rightarrow> real list list list) \<Rightarrow>
   real list list list \<Rightarrow> real list list list \<Rightarrow> py_error + bool list" where
  "detect_anomalies predict x_train x_test =
     (case get_threshold predict x_train of
        Inl e \<Rightarrow> Inl e
      | Inr threshold \<Rightarrow>
     (case mae_loss (predict x_test) x_test of
        Inl e \<Rightarrow> Inl e
      | Inr test_mae_loss \<Rightarrow> Inr (classify (concat test_mae_loss) threshold)))"

subsection \<open>From anomalous windows to anomalous data points\<close>

text \<open>
  \<^verbatim>\<open>
  # data i is an anomaly if samples [(i - timesteps + 1) to (i)] are anomalies
  anomalous_data_indices = []
  for data_idx in range(TIME_STEPS - 1, len(test_value) - TIME_STEPS + 1):
      time_series = range(data_idx - TIME_STEPS + 1, data_idx)
      if all([anomalies[j] for j in time_series]):
          anomalous_data_indices.append(data_idx)
  \<close>
  The global \<^verbatim>\<open>TIME_STEPS\<close> is the parameter \<open>time_steps\<close> of the model. The list
  comprehension reads every index before \<^verbatim>\<open>all\<close> looks at the values, so one index out
  of range raises.
\<close>

fun py_getitems :: "'a list \<Rightarrow> int list \<Rightarrow> py_error + 'a list" where
  "py_getitems xs [] = Inr []"
| "py_getitems xs (j # js) =
     (case py_getitem xs j of
        Inl e \<Rightarrow> Inl e
      | Inr v \<Rightarrow>
          (case py_getitems xs js of
             Inl e \<Rightarrow> Inl e
           | Inr vs \<Rightarrow> Inr (v # vs)))"

definition py_all :: "bool list \<Rightarrow> bool" where
  "py_all bs = list_all (\<lambda>b. b) bs"

fun anomalous_data_indices_loop ::
  "bool list \<Rightarrow> int \<Rightarrow> int list \<Rightarrow> int list \<Rightarrow> py_error + int list" where
  "anomalous_data_indices_loop anomalies time_steps [] acc = Inr acc"
| "anomalous_data_indices_loop anomalies time_steps (data_idx # rest) acc =
     (let time_series = py_range (data_idx - time_steps + 1) data_idx
      in case py_getitems anomalies time_series of
           Inl e \<Rightarrow> Inl e
         | Inr flags \<Rightarrow>
             anomalous_data_indices_loop anomalies time_steps rest
               (if py_all flags then acc @ [data_idx] else acc))"

definition anomalous_data_indices ::
  "bool list \<Rightarrow> real list \<Rightarrow> int \<Rightarrow> py_error + int list" where
  "anomalous_data_indices anomalies test_value time_steps =
     anomalous_data_indices_loop anomalies time_steps
       (py_range (time_steps - 1) (int (length test_value) - time_steps + 1)) []"

text \<open>
  Window \<open>j\<close> is the slice of the positions \<open>j, \<dots>, j + time_steps - 1\<close>: it covers the
  data point \<open>i\<close> when \<open>i\<close> is one of them.
\<close>

definition covers :: "int \<Rightarrow> int \<Rightarrow> int \<Rightarrow> bool" where
  "covers time_steps j i = (j \<le> i \<and> i < j + time_steps)"

text \<open>
  \<^verbatim>\<open>df_subset = df_daily_jumpsup.iloc[anomalous_data_indices, :]\<close>: the rows at the given
  positions; pandas raises IndexError when a position is out of bounds.
\<close>

definition df_iloc :: "'a list \<Rightarrow> int list \<Rightarrow> py_error + 'a list" where
  "df_iloc rows idxs = py_getitems rows idxs"

subsection \<open>Normalisation\<close>

text \<open>
  \<^verbatim>\<open>
  def normalize(values):
      mean = np.mean(values)
      values -= mean
      std = np.std(values)
      values /= std
      return values, mean, std

  def normalize_test(values, mean, std):
      values -= mean
      values /= std
      return values
  \<close>
  numpy does not raise on a division by zero or on the mean of no values: it warns and
  stores nan or an infinity. \<^typ>\<open>real\<close> has neither, so the model ends such a run
  with \<open>InvalidValue\<close>.
\<close>

definition np_mean :: "real list \<Rightarrow> py_error + real" where
  "np_mean xs = (if xs = [] then Inl InvalidValue else Inr (sum_list xs / real (length xs)))"

text \<open>\<^verbatim>\<open>np.std\<close>: the square root of the mean of the squared deviations from the mean.\<close>

definition np_std :: "real list \<Rightarrow> py_error + real" where
  "np_std xs =
     (case np_mean xs of
        Inl e \<Rightarrow> Inl e
      | Inr m \<Rightarrow>
          (case np_mean (map (\<lambda>x. \<bar>x - m\<bar> ^ 2) xs) of
             Inl e \<Rightarrow> Inl e
           | Inr v \<Rightarrow> Inr (sqrt v)))"

definition np_divide :: "real list \<Rightarrow> real \<Rightarrow> py_error + real list" where
  "np_divide xs d =
     (if d = 0 \<and> xs \<noteq> [] then Inl InvalidValue else Inr (map (\<lambda>x. x / d) xs))"

definition normalize :: "real list \<Rightarrow> py_error + (real list \<times> real \<times> real)" where
  "normalize values =
     (case np_mean values of
        Inl e \<Rightarrow> Inl e
      | Inr mean \<Rightarrow>
          (let values1 = map (\<lambda>x. x - mean) values
           in case np_std values1 of
                Inl e \<Rightarrow> Inl e
              | Inr std \<Rightarrow>
                  (case np_divide values1 std of
                     Inl e \<Rightarrow> Inl e
                   | Inr values2 \<Rightarrow> Inr (values2, mean, std))))"

definition normalize_test :: "real list \<Rightarrow> real \<Rightarrow> real \<Rightarrow> py_error + real list" where
  "normalize_test values mean std = np_divide (map (\<lambda>x. x - mean) values) std"

section \<open>Properties\<close>

subsection \<open>Ranges and slices\<close>

lemma py_range_0: "py_range 0 m = map int [0..<nat m]"
  by (rule nth_equalityI) (auto simp: py_range_def)

lemma py_range_length [simp]: "length (py_range a b) = nat (b - a)"
  by (simp add: py_range_def)

lemma py_range_nth [simp]: "k < nat (b - a) \<Longrightarrow> py_range a b ! k = a + int k"
  by (simp add: py_range_def)

lemma py_range_set [simp]: "set (py_range a b) = {a..<b}"
  by (auto simp: py_range_def)

lemma py_slice_inside:
  "0 \<le> i \<Longrightarrow> 0 \<le> t \<Longrightarrow> i + t \<le> int (length xs) \<Longrightarrow>
   py_slice xs i (i + t) = take (nat t) (drop (nat i) xs)"
  by (simp add: py_slice_def Let_def min_def)

lemma create_sequences_loop_map:
  "create_sequences_loop values time_steps is output =
   output @ map (\<lambda>i. py_slice values i (i + time_steps)) is"
  by (induction "is" arbitrary: "output") simp_all

lemma create_sequences_output:
  assumes "0 \<le> time_steps"
  shows "create_sequences_loop values time_steps
           (py_range 0 (int (length values) - time_steps)) [] =
         map (\<lambda>i. take (nat time_steps) (drop i values))
           [0..<length values - nat time_steps]"
proof -
  have "nat (int (length values) - time_steps) = length values - nat time_steps"
    using assms by linarith
  moreover have "py_slice values (int i) (int i + time_steps) =
      take (nat time_steps) (drop i values)"
    if "i < length values - nat time_steps" for i
    using that assms py_slice_inside [of "int i" time_steps "values"] by simp
  ultimately show ?thesis
    by (simp add: create_sequences_loop_map py_range_0 comp_def)
qed

lemma np_expand_dims_axis2_uniform:
  assumes "output \<noteq> []" and "\<And>s. s \<in> set output \<Longrightarrow> length s = m"
  shows "np_expand_dims_axis2 output = Inr (map (map (\<lambda>v. [v])) output)"
proof -
  obtain r rs where o: "output = r # rs"
    using assms(1) by (cases "output") auto
  have "list_all (\<lambda>s. length s = length r) rs"
    using assms(2) o by (auto simp: list_all_iff)
  then show ?thesis
    by (simp add: np_expand_dims_axis2_def o)
qed

lemma create_sequences_windows:
  assumes "0 \<le> time_steps" and "time_steps + 1 \<le> int (length values)"
  shows "create_sequences values time_steps =
         Inr (map (\<lambda>i. map (\<lambda>v. [v]) (take (nat time_steps) (drop i values)))
                [0..<length values - nat time_steps])"
proof -
  let ?out = "map (\<lambda>i. take (nat time_steps) (drop i values))
                [0..<length values - nat time_steps]"
  have pos: "0 < length values - nat time_steps"
    using assms by linarith
  have ne: "?out \<noteq> []"
    using pos by simp
  have len: "length s = nat time_steps" if "s \<in> set ?out" for s
    using that assms by auto
  have "create_sequences values time_steps = np_expand_dims_axis2 ?out"
    by (simp add: create_sequences_def create_sequences_output [OF assms(1)])
  also have "\<dots> = Inr (map (map (\<lambda>v. [v])) ?out)"
    using ne len by (rule np_expand_dims_axis2_uniform)
  finally show ?thesis
    by (simp add: comp_def)
qed

lemma create_sequences_too_short:
  assumes "int (length values) \<le> time_steps"
  shows "create_sequences values time_steps = Inl AxisError"
proof -
  have "py_range 0 (int (length values) - time_steps) = []"
    using assms by (simp add: py_range_def)
  then show ?thesis
    by (simp add: create_sequences_def np_expand_dims_axis2_def)
qed

lemma create_sequences_shape:
  assumes "0 \<le> time_steps" and "time_steps + 1 \<le> int (length values)"
  shows "\<exists>windows. create_sequences values time_steps = Inr windows \<and>
           has_shape3 windows (length values - nat time_steps) (nat time_steps) 1"
  using assms
  by (simp add: create_sequences_windows [OF assms] has_shape3_def list_all_iff)

subsection \<open>The windows of \<open>create_sequences\<close>\<close>

text \<open>
  Claim C7. For a value sequence of length \<open>n \<ge> time_steps + 1\<close> (and a window length
  of at least 1), \<open>create_sequences\<close> returns exactly \<open>n - time_steps\<close> windows; the
  window at index \<open>i\<close> is the slice that starts at \<open>i\<close>, so the start indices are
  \<open>0, \<dots>, n - time_steps - 1\<close>. Every entry of a window is a value at a position
  before \<open>n - 1\<close>: the last element of the sequence is in no window (for a sequence of
  distinct values, its value occurs in no window), and the slice that starts at
  \<open>n - time_steps\<close> is not among the windows.
\<close>

theorem create_sequences_window_count:
  assumes "1 \<le> time_steps" and "time_steps + 1 \<le> int (length values)"
  shows "\<exists>windows. create_sequences values time_steps = Inr windows
     \<and> int (length windows) = int (length values) - time_steps
     \<and> (\<forall>i<length windows.
           windows ! i = map (\<lambda>v. [v]) (py_slice values (int i) (int i + time_steps)))
     \<and> (\<forall>i<length windows. \<forall>k<nat time_steps.
           windows ! i ! k = [values ! (i + k)] \<and> i + k < length values - 1)
     \<and> (distinct values \<longrightarrow>
           (\<forall>w\<in>set windows. [last values] \<notin> set w) \<and>
           map (\<lambda>v. [v])
             (py_slice values (int (length values) - time_steps) (int (length values)))
             \<notin> set windows)"
proof -
  let ?n = "length values" and ?t = "nat time_steps"
  let ?ws = "map (\<lambda>i. map (\<lambda>v. [v]) (take ?t (drop i values))) [0..<?n - ?t]"
  have t0: "0 \<le> time_steps" and tpos: "0 < ?t" and lt: "?t < ?n"
    using assms by linarith+
  have eq: "create_sequences values time_steps = Inr ?ws"
    using t0 assms(2) by (rule create_sequences_windows)
  have len: "int (length ?ws) = int ?n - time_steps"
    using assms by simp
  have slice: "?ws ! i = map (\<lambda>v. [v]) (py_slice values (int i) (int i + time_steps))"
    if "i < length ?ws" for i
    using that t0 py_slice_inside [of "int i" time_steps "values"] by simp
  have entry: "?ws ! i ! k = [values ! (i + k)] \<and> i + k < ?n - 1"
    if "i < length ?ws" "k < ?t" for i k
    using that by simp
  have nolast: "[last values] \<notin> set w" if d: "distinct values" and w: "w \<in> set ?ws" for w
  proof
    assume "[last values] \<in> set w"
    then obtain i where i: "i < ?n - ?t" and "last values \<in> set (take ?t (drop i values))"
      using w by auto
    then obtain k where k: "k < ?t" "i + k < ?n" and v: "values ! (i + k) = last values"
      by (auto simp: in_set_conv_nth)
    have "values \<noteq> []" using lt by auto
    then have "last values = values ! (?n - 1)"
      by (simp add: last_conv_nth)
    with v d k(2) lt have "i + k = ?n - 1"
      by (simp add: nth_eq_iff_index_eq)
    with i k(1) show False by linarith
  qed
  have final: "py_slice values (int ?n - time_steps) (int ?n) = drop (?n - ?t) values"
    using py_slice_inside [of "int ?n - time_steps" time_steps "values"] t0 lt
    by (simp add: nat_diff_distrib')
  have nofinal: "map (\<lambda>v. [v]) (drop (?n - ?t) values) \<notin> set ?ws" if d: "distinct values"
  proof
    assume "map (\<lambda>v. [v]) (drop (?n - ?t) values) \<in> set ?ws"
    then obtain i where i: "i < ?n - ?t"
      and e: "map (\<lambda>v. [v]) (drop (?n - ?t) values) = map (\<lambda>v. [v]) (take ?t (drop i values))"
      by auto
    have inj: "inj (\<lambda>v::'a. [v])" by (simp add: inj_def)
    from e have "drop (?n - ?t) values = take ?t (drop i values)"
      using inj by (simp add: inj_map_eq_map)
    then have "(drop (?n - ?t) values) ! 0 = (take ?t (drop i values)) ! 0"
      by simp
    then have "values ! (?n - ?t) = values ! i"
      using tpos lt i by simp
    with d i lt tpos have "?n - ?t = i"
      by (simp add: nth_eq_iff_index_eq)
    with i show False by simp
  qed
  show ?thesis
    unfolding eq final using len slice entry nolast nofinal by blast
qed

theorem create_sequences_window_count_witness:
  "(1::int) \<le> 3 \<and> (3::int) + 1 \<le> int (length [10, 20, 30, 40, 50 :: int]) \<and>
   distinct [10, 20, 30, 40, 50 :: int] \<and>
   create_sequences [10, 20, 30, 40, 50 :: int] 3 =
     Inr [[[10], [20], [30]], [[20], [30], [40]]]"
proof -
  have v: "create_sequences [10, 20, 30, 40, 50 :: int] 3 =
      Inr [[[10], [20], [30]], [[20], [30], [40]]]"
    by code_simp
  show ?thesis
    using create_sequences_window_count [of 3 "[10, 20, 30, 40, 50 :: int]"] v by simp
qed

text \<open>
  Claim C2, at a sequence of exactly \<open>TIME_STEPS\<close> values. The loop appends nothing,
  \<^verbatim>\<open>np.expand_dims\<close> receives the empty list and raises AxisError: no tensor is
  returned. (From \<open>TIME_STEPS + 1\<close> values on, \<open>create_sequences_shape\<close> and
  \<open>create_sequences_windows\<close> give the shape and the windows.)
\<close>

theorem create_sequences_exact_length_fails:
  "create_sequences (replicate 288 (0::real)) TIME_STEPS = Inl AxisError"
  by (rule create_sequences_too_short) (simp add: TIME_STEPS_def)

subsection \<open>The reduction of the window mask to data points\<close>

lemma py_getitem_inside:
  "0 \<le> j \<Longrightarrow> j < int (length xs) \<Longrightarrow> py_getitem xs j = Inr (xs ! nat j)"
  by (simp add: py_getitem_def)

lemma py_getitems_inside:
  "(\<And>j. j \<in> set js \<Longrightarrow> 0 \<le> j \<and> j < int (length xs)) \<Longrightarrow>
   py_getitems xs js = Inr (map (\<lambda>j. xs ! nat j) js)"
  by (induction js) (simp_all add: py_getitem_inside)

lemma py_all_map: "py_all (map f js) = (\<forall>j\<in>set js. f j)"
  by (simp add: py_all_def list_all_iff)

lemma anomalous_data_indices_loop_filter:
  "anomalous_data_indices_loop anomalies time_steps ds acc = Inr idxs \<Longrightarrow>
   idxs = acc @ filter (\<lambda>d. case py_getitems anomalies (py_range (d - time_steps + 1) d) of
                                Inl e \<Rightarrow> False | Inr flags \<Rightarrow> py_all flags) ds"
proof (induction ds arbitrary: acc)
  case Nil
  then show ?case by simp
next
  case (Cons d ds)
  show ?case
  proof (cases "py_getitems anomalies (py_range (d - time_steps + 1) d)")
    case (Inl e)
    with Cons.prems show ?thesis by (simp add: Let_def)
  next
    case (Inr flags)
    with Cons.prems have
      "anomalous_data_indices_loop anomalies time_steps ds
         (if py_all flags then acc @ [d] else acc) = Inr idxs"
      by (simp add: Let_def)
    from Cons.IH [OF this] Inr show ?thesis by simp
  qed
qed

lemma anomalous_data_indices_loop_inside:
  assumes "\<And>d j. d \<in> set ds \<Longrightarrow> d - time_steps + 1 \<le> j \<Longrightarrow> j < d \<Longrightarrow>
             0 \<le> j \<and> j < int (length anomalies)"
  shows "anomalous_data_indices_loop anomalies time_steps ds acc =
         Inr (acc @ filter (\<lambda>d. \<forall>j\<in>{d - time_steps + 1..<d}. anomalies ! nat j) ds)"
  using assms
proof (induction ds arbitrary: acc)
  case Nil
  then show ?case by simp
next
  case (Cons d ds)
  have g: "py_getitems anomalies (py_range (d - time_steps + 1) d) =
           Inr (map (\<lambda>j. anomalies ! nat j) (py_range (d - time_steps + 1) d))"
    by (rule py_getitems_inside) (use Cons.prems in auto)
  have rest: "\<And>acc'. anomalous_data_indices_loop anomalies time_steps ds acc' =
         Inr (acc' @ filter (\<lambda>d. \<forall>j\<in>{d - time_steps + 1..<d}. anomalies ! nat j) ds)"
    by (rule Cons.IH) (use Cons.prems in auto)
  show ?case
    by (simp add: g rest py_all_map Let_def)
qed

lemma anomalous_data_indices_eq:
  assumes "1 \<le> time_steps"
    and "int (length test_value) - time_steps \<le> int (length anomalies)"
  shows "anomalous_data_indices anomalies test_value time_steps =
         Inr (filter (\<lambda>d. \<forall>j\<in>{d - time_steps + 1..<d}. anomalies ! nat j)
                (py_range (time_steps - 1) (int (length test_value) - time_steps + 1)))"
  unfolding anomalous_data_indices_def
  using anomalous_data_indices_loop_inside
    [of "py_range (time_steps - 1) (int (length test_value) - time_steps + 1)"
        time_steps anomalies "[]"] assms
  by auto

lemma anomalous_data_indices_Inr:
  assumes "anomalous_data_indices anomalies test_value time_steps = Inr idxs"
  shows "sorted_wrt (<) idxs"
    and "\<And>d. d \<in> set idxs \<Longrightarrow>
           time_steps - 1 \<le> d \<and> d \<le> int (length test_value) - time_steps"
proof -
  from assms obtain P where
    e: "idxs = filter P (py_range (time_steps - 1) (int (length test_value) - time_steps + 1))"
    unfolding anomalous_data_indices_def
    by (drule_tac anomalous_data_indices_loop_filter) auto
  show "sorted_wrt (<) idxs"
    unfolding e py_range_def by (rule sorted_wrt_filter) simp
  show "time_steps - 1 \<le> d \<and> d \<le> int (length test_value) - time_steps"
    if "d \<in> set idxs" for d
    using that unfolding e by auto
qed

text \<open>
  Claim C8. When the mask has a flag for every window (at least
  \<open>len(test_value) - time_steps\<close> entries) and \<open>time_steps \<ge> 1\<close>, the loop returns a
  list \<open>anomalous_data_indices\<close> that is strictly increasing and whose elements lie
  between \<open>time_steps - 1\<close> and \<open>n - time_steps\<close>, where \<open>n = len(test_value)\<close>.
  For a dataframe of \<open>n\<close> rows every element is therefore a valid row position:
  the row selection \<open>df_iloc\<close> does not raise and returns the rows at these positions.
\<close>

theorem anomalous_data_indices_increasing_in_range:
  assumes "1 \<le> time_steps"
    and "int (length test_value) - time_steps \<le> int (length anomalies)"
  shows "\<exists>idxs. anomalous_data_indices anomalies test_value time_steps = Inr idxs
     \<and> sorted_wrt (<) idxs
     \<and> (\<forall>d\<in>set idxs. time_steps - 1 \<le> d \<and> d \<le> int (length test_value) - time_steps)
     \<and> (length rows = length test_value \<longrightarrow>
          (\<forall>d\<in>set idxs. 0 \<le> d \<and> d < int (length rows)) \<and>
          df_iloc rows idxs = Inr (map (\<lambda>d. rows ! nat d) idxs))"
proof -
  obtain idxs where r: "anomalous_data_indices anomalies test_value time_steps = Inr idxs"
    using anomalous_data_indices_eq [OF assms] by blast
  have s: "sorted_wrt (<) idxs"
    using r by (rule anomalous_data_indices_Inr(1))
  have b: "time_steps - 1 \<le> d \<and> d \<le> int (length test_value) - time_steps"
    if "d \<in> set idxs" for d
    using r that by (rule anomalous_data_indices_Inr(2))
  have v: "0 \<le> d \<and> d < int (length rows)"
    if "d \<in> set idxs" "length rows = length test_value" for d
    using b [OF that(1)] that(2) assms(1) by linarith
  have "df_iloc rows idxs = Inr (map (\<lambda>d. rows ! nat d) idxs)"
    if "length rows = length test_value"
    unfolding df_iloc_def by (rule py_getitems_inside) (use v that in blast)
  with r s b v show ?thesis by blast
qed

theorem anomalous_data_indices_increasing_in_range_witness:
  "(1::int) \<le> 3
   \<and> int (length (replicate 10 (0::real))) - 3
       \<le> int (length [False, True, True, True, True, False, False])
   \<and> length ''abcdefghij'' = length (replicate 10 (0::real))
   \<and> anomalous_data_indices [False, True, True, True, True, False, False]
        (replicate 10 0) 3 = Inr [3, 4, 5]
   \<and> df_iloc ''abcdefghij'' [3, 4, 5] = Inr ''def''"
proof -
  have e: "anomalous_data_indices [False, True, True, True, True, False, False]
        (replicate 10 0) 3 = Inr [3, 4, 5]"
    by code_simp
  have f: "df_iloc ''abcdefghij'' [3, 4, 5] = Inr ''def''"
    by code_simp
  show ?thesis
    using anomalous_data_indices_increasing_in_range
      [of 3 "replicate 10 0" "[False, True, True, True, True, False, False]" "''abcdefghij''"]
      e f
    by simp
qed

text \<open>
  Claim C1, at \<open>TIME_STEPS = 288\<close>, 576 test values and the mask of 288 windows in
  which the windows 0 to 286 are anomalous and window 287 is not. The loop reads the
  flags of the windows \<open>data_idx - TIME_STEPS + 1\<close> to \<open>data_idx - 1\<close> only, so it
  flags the data point 287, although window 287 covers the point 287 and is not
  anomalous.
\<close>

theorem flags_point_with_normal_window:
  "anomalous_data_indices (replicate 287 True @ [False]) (replicate 576 0) TIME_STEPS
     = Inr [287]
   \<and> covers TIME_STEPS 287 287
   \<and> py_getitem (replicate 287 True @ [False]) 287 = Inr False"
proof -
  let ?a = "replicate 287 True @ [False]"
  have r: "py_range (TIME_STEPS - 1) (int (length (replicate 576 (0::real))) - TIME_STEPS + 1)
           = [287, 288]"
    by (simp add: py_range_def TIME_STEPS_def)
  have p1: "\<forall>j\<in>{287 - TIME_STEPS + 1..<287}. ?a ! nat j"
    by (auto simp: TIME_STEPS_def nth_append)
  have "287 \<in> {288 - TIME_STEPS + 1..<288}" "\<not> ?a ! nat 287"
    by (simp_all add: TIME_STEPS_def nth_append)
  then have p2: "\<not> (\<forall>j\<in>{288 - TIME_STEPS + 1..<288}. ?a ! nat j)"
    by blast
  have "anomalous_data_indices ?a (replicate 576 0) TIME_STEPS = Inr [287]"
    using anomalous_data_indices_eq [of TIME_STEPS "replicate 576 0" ?a] p1 p2
    unfolding r by (simp add: TIME_STEPS_def)
  then show ?thesis
    by (simp add: covers_def TIME_STEPS_def py_getitem_def nth_append)
qed

subsection \<open>Reconstruction error and threshold\<close>

lemma has_shape3_nth:
  assumes "has_shape3 t k m f" and "s < k"
  shows "length (t ! s) = m" and "\<And>j. j < m \<Longrightarrow> length (t ! s ! j) = f"
  using assms by (auto simp: has_shape3_def list_all_length)

lemma has_shape3_dims:
  assumes "has_shape3 t k m f" and "0 < k"
  shows "dim0 t = k" and "dim1 t = m" and "0 < m \<Longrightarrow> dim2 t = f"
proof -
  obtain w ws where t: "t = w # ws"
    using assms by (cases t) (auto simp: has_shape3_def)
  show "dim0 t = k"
    using assms by (simp add: has_shape3_def dim0_def)
  show "dim1 t = m"
    using assms by (simp add: has_shape3_def dim1_def t)
  show "dim2 t = f" if "0 < m"
  proof -
    have "length w = m" "list_all (\<lambda>r. length r = f) w"
      using assms by (simp_all add: has_shape3_def t)
    then show ?thesis
      using that by (cases w) (auto simp: dim2_def t)
  qed
qed

lemma bc_nth_inside: "i < length xs \<Longrightarrow> bc_nth xs i = xs ! i"
  by (auto simp: bc_nth_def)

lemma np_subtract_same_shape:
  assumes a: "has_shape3 a k m f" and b: "has_shape3 b k m f" and "0 < k" and "0 < m"
  shows "np_subtract a b =
         Inr (map (\<lambda>i. map (\<lambda>j. map (\<lambda>c. a ! i ! j ! c - b ! i ! j ! c)
                [0..<f]) [0..<m]) [0..<k])"
proof -
  have la: "length a = k" and lb: "length b = k"
    using a b by (simp_all add: has_shape3_def)
  have "bc_nth (bc_nth (bc_nth a i) j) c = a ! i ! j ! c"
    and "bc_nth (bc_nth (bc_nth b i) j) c = b ! i ! j ! c"
    if "i < k" "j < m" "c < f" for i j c
    using that has_shape3_nth [OF a that(1)] has_shape3_nth [OF b that(1)] la lb
    by (simp_all add: bc_nth_inside)
  then show ?thesis
    using has_shape3_dims [OF a \<open>0 < k\<close>] has_shape3_dims [OF b \<open>0 < k\<close>] \<open>0 < m\<close>
    by (simp add: np_subtract_def bc_dim_def)
qed

lemma np_mean_axis1_shape:
  assumes a: "has_shape3 a k m f" and "0 < k" and "0 < m"
  shows "np_mean_axis1 a =
         Inr (map (\<lambda>w. map (\<lambda>c. sum_list (map (\<lambda>r. r ! c) w) / real m) [0..<f]) a)"
proof -
  have "a \<noteq> []" using a \<open>0 < k\<close> by (auto simp: has_shape3_def)
  moreover have "length w = m" if "w \<in> set a" for w
    using a that by (auto simp: has_shape3_def list_all_iff)
  ultimately show ?thesis
    using has_shape3_dims [OF a \<open>0 < k\<close>] \<open>0 < m\<close>
    by (simp add: np_mean_axis1_def)
qed

lemma mae_loss_eq:
  assumes x: "has_shape3 x k m 1" and p: "has_shape3 pred k m 1" and "0 < k" and "0 < m"
  shows "mae_loss pred x =
         Inr (map (\<lambda>s. [(\<Sum>t<m. \<bar>pred ! s ! t ! 0 - x ! s ! t ! 0\<bar>) / real m]) [0..<k])"
proof -
  let ?d = "map (\<lambda>i. map (\<lambda>j. map (\<lambda>c. \<bar>pred ! i ! j ! c - x ! i ! j ! c\<bar>)
                [0..<1]) [0..<m]) [0..<k]"
  have sub: "np_subtract pred x =
      Inr (map (\<lambda>i. map (\<lambda>j. map (\<lambda>c. pred ! i ! j ! c - x ! i ! j ! c)
                [0..<1]) [0..<m]) [0..<k])"
    using p x \<open>0 < k\<close> \<open>0 < m\<close> by (rule np_subtract_same_shape)
  have d: "has_shape3 ?d k m 1"
    by (simp add: has_shape3_def list_all_iff)
  have "mae_loss pred x = np_mean_axis1 ?d"
    by (simp add: mae_loss_def sub np_abs_def comp_def)
  also have "\<dots> = Inr (map (\<lambda>w. map (\<lambda>c. sum_list (map (\<lambda>r. r ! c) w) / real m) [0..<1]) ?d)"
    using d \<open>0 < k\<close> \<open>0 < m\<close> by (rule np_mean_axis1_shape)
  also have "\<dots> = Inr (map (\<lambda>s. [(\<Sum>t<m. \<bar>pred ! s ! t ! 0 - x ! s ! t ! 0\<bar>) / real m]) [0..<k])"
    by (simp add: comp_def interv_sum_list_conv_sum_set_nat atLeast0LessThan)
  finally show ?thesis .
qed

lemma np_max_Max:
  "concat m \<noteq> [] \<Longrightarrow> np_max m = Inr (Max (set (concat m)))"
  by (cases "concat m") (simp_all add: np_max_def Max.set_eq_fold [symmetric])

lemma np_max_bounds:
  assumes "np_max m = Inr threshold"
  shows "\<And>l. l \<in> set (concat m) \<Longrightarrow> l \<le> threshold" and "threshold \<in> set (concat m)"
proof -
  have ne: "concat m \<noteq> []"
    using assms by (cases "concat m") (simp_all add: np_max_def)
  then have th: "threshold = Max (set (concat m))"
    using assms np_max_Max by simp
  show "l \<le> threshold" if "l \<in> set (concat m)" for l
    unfolding th using that by (intro Max_ge) simp_all
  show "threshold \<in> set (concat m)"
    unfolding th using ne by (intro Max_in) simp_all
qed

lemma has_shape3_empty: "has_shape3 t 0 m f \<Longrightarrow> t = []"
  by (simp add: has_shape3_def)

lemma mae_loss_empty: "mae_loss [] [] = Inr []"
  by (simp add: mae_loss_def np_subtract_def bc_dim_def dim0_def dim1_def dim2_def
      np_abs_def np_mean_axis1_def)

lemma mae_loss_rows:
  assumes x: "has_shape3 x k m 1" and p: "has_shape3 pred k m 1" and "0 < m"
  shows "mae_loss pred x =
         Inr (map (\<lambda>s. [(\<Sum>t<m. \<bar>pred ! s ! t ! 0 - x ! s ! t ! 0\<bar>) / real m]) [0..<k])"
proof (cases "k = 0")
  case True
  with x p have "x = []" "pred = []"
    using has_shape3_empty by blast+
  with True show ?thesis
    by (simp add: mae_loss_empty)
next
  case False
  then show ?thesis
    using mae_loss_eq [OF x p _ \<open>0 < m\<close>] by simp
qed

lemma train_loss_threshold:
  assumes "has_shape3 x_train k m 1" and "has_shape3 (predict x_train) k m 1"
    and "0 < k" and "0 < m"
  shows "\<exists>losses threshold.
      mae_loss (predict x_train) x_train = Inr losses
    \<and> get_threshold predict x_train = Inr threshold
    \<and> length losses = k
    \<and> concat losses = map (\<lambda>s. losses ! s ! 0) [0..<k]
    \<and> threshold = Max (set (concat losses))
    \<and> (\<forall>s<k. losses ! s ! 0 \<le> threshold)
    \<and> (\<exists>s<k. losses ! s ! 0 = threshold)"
proof -
  define g where "g s = (\<Sum>t<m. \<bar>predict x_train ! s ! t ! 0 - x_train ! s ! t ! 0\<bar>) / real m" for s
  define losses where "losses = map (\<lambda>s. [g s]) [0..<k]"
  have l: "mae_loss (predict x_train) x_train = Inr losses"
    unfolding losses_def g_def using assms(1,2,4) by (rule mae_loss_rows)
  have c: "concat losses = map g [0..<k]"
    by (simp add: losses_def)
  have c': "concat losses = map (\<lambda>s. losses ! s ! 0) [0..<k]"
    unfolding c by (simp add: losses_def)
  have ne: "concat losses \<noteq> []"
    using \<open>0 < k\<close> by (simp add: c)
  define threshold where "threshold = Max (set (concat losses))"
  have t: "get_threshold predict x_train = Inr threshold"
    by (simp add: get_threshold_def l np_max_Max [OF ne] threshold_def)
  have m: "np_max losses = Inr threshold"
    by (simp add: np_max_Max [OF ne] threshold_def)
  have le: "losses ! s ! 0 \<le> threshold" if "s < k" for s
    using np_max_bounds(1) [OF m, of "losses ! s ! 0"] that unfolding c' by simp
  have "threshold \<in> set (map (\<lambda>s. losses ! s ! 0) [0..<k])"
    using np_max_bounds(2) [OF m] unfolding c' .
  then have ex: "\<exists>s<k. losses ! s ! 0 = threshold"
    by auto
  have "length losses = k"
    by (simp add: losses_def)
  with l t c' threshold_def le ex show ?thesis
    by blast
qed

text \<open>
  Claim C5. For an input tensor and a reconstruction of the same shape
  \<open>(k, m, 1)\<close> with \<open>m \<ge> 1\<close> positions per window (in the script \<open>m\<close> is
  \<open>TIME_STEPS\<close>), \<open>np.mean(np.abs(pred - x), axis=1)\<close> returns one loss per sample, and
  the loss of sample \<open>s\<close> is the mean over the \<open>m\<close> positions \<open>t\<close> of the absolute
  difference between the predicted value and the input value at position \<open>t\<close>. This
  holds for the \<open>(k, 1)\<close> array of the training losses and for the flattened array of
  the test losses.
\<close>

theorem mae_loss_mean_absolute_error:
  assumes "has_shape3 x k m 1" and "has_shape3 pred k m 1" and "0 < m"
  shows "\<exists>losses. mae_loss pred x = Inr losses \<and> length losses = k
     \<and> (\<forall>s<k. losses ! s = [(\<Sum>t<m. \<bar>pred ! s ! t ! 0 - x ! s ! t ! 0\<bar>) / real m])
     \<and> (\<forall>s<k. concat losses ! s = (\<Sum>t<m. \<bar>pred ! s ! t ! 0 - x ! s ! t ! 0\<bar>) / real m)"
  by (simp add: mae_loss_rows [OF assms])

theorem mae_loss_mean_absolute_error_witness:
  "has_shape3 [[[1 :: real], [2]], [[2], [3]]] 2 2 1
   \<and> has_shape3 [[[2 :: real], [4]], [[4], [6]]] 2 2 1
   \<and> (0 :: nat) < 2
   \<and> mae_loss [[[2], [4]], [[4], [6]]] [[[1], [2]], [[2], [3]]] = Inr [[3 / 2], [5 / 2]]"
proof -
  have a: "has_shape3 [[[1 :: real], [2]], [[2], [3]]] 2 2 1"
    and b: "has_shape3 [[[2 :: real], [4]], [[4], [6]]] 2 2 1"
    by code_simp+
  have c: "mae_loss [[[2], [4]], [[4], [6]]] [[[1], [2]], [[2], [3]]] = Inr [[3 / 2], [5 / 2]]"
    by code_simp
  have p: "(0 :: nat) < 2" by simp
  from mae_loss_mean_absolute_error [OF a b p] obtain losses where
    "mae_loss [[[2], [4]], [[4], [6]]] [[[1], [2]], [[2], [3]]] = Inr losses"
    by (elim exE conjE)
  with a b c show ?thesis by simp
qed

text \<open>
  Claim C3. For a non-empty training set (\<open>k \<ge> 1\<close> windows of \<open>m \<ge> 1\<close> positions,
  reconstructed in the same shape) the threshold is the maximum of the per-sample
  training losses: every training sample's loss is at most the threshold, and the loss
  of some training sample equals it.
\<close>

theorem threshold_is_max_train_loss:
  assumes "has_shape3 x_train k m 1" and "has_shape3 (predict x_train) k m 1"
    and "0 < k" and "0 < m"
  shows "\<exists>train_mae_loss threshold.
       mae_loss (predict x_train) x_train = Inr train_mae_loss
     \<and> get_threshold predict x_train = Inr threshold
     \<and> length train_mae_loss = k
     \<and> threshold = Max (set (concat train_mae_loss))
     \<and> (\<forall>s<k. train_mae_loss ! s ! 0 \<le> threshold)
     \<and> (\<exists>s<k. train_mae_loss ! s ! 0 = threshold)"
  using train_loss_threshold [where predict = predict and x_train = x_train, OF assms]
  by blast

theorem threshold_is_max_train_loss_witness:
  "has_shape3 [[[1 :: real], [2]], [[2], [3]]] 2 2 1
   \<and> has_shape3 (map (map (map (\<lambda>v. 2 * v))) [[[1 :: real], [2]], [[2], [3]]]) 2 2 1
   \<and> (0 :: nat) < 2
   \<and> mae_loss (map (map (map (\<lambda>v. 2 * v))) [[[1], [2]], [[2], [3]]]) [[[1], [2]], [[2], [3]]]
       = Inr [[3 / 2], [5 / 2]]
   \<and> get_threshold (map (map (map (\<lambda>v. 2 * v)))) [[[1], [2]], [[2], [3]]] = Inr (5 / 2)"
proof -
  let ?p = "map (map (map (\<lambda>v :: real. 2 * v)))"
  let ?x = "[[[1 :: real], [2]], [[2], [3]]]"
  have a: "has_shape3 ?x 2 2 1" and b: "has_shape3 (?p ?x) 2 2 1"
    by code_simp+
  have c: "mae_loss (?p ?x) ?x = Inr [[3 / 2], [5 / 2]]"
    and d: "get_threshold ?p ?x = Inr (5 / 2)"
    by code_simp+
  have p: "(0 :: nat) < 2" by simp
  from threshold_is_max_train_loss [where predict = ?p and x_train = ?x, OF a b p p]
  obtain threshold where "get_threshold ?p ?x = Inr threshold"
    by (elim exE conjE)
  with a b c d show ?thesis by simp
qed

text \<open>
  Claim C4. The threshold is computed from the training losses alone (their maximum),
  before the test windows are classified; test window \<open>i\<close> is marked anomalous exactly
  when its loss is strictly greater than that threshold.
\<close>

theorem anomaly_iff_loss_exceeds_threshold:
  assumes "has_shape3 x_train k m 1" and "has_shape3 (predict x_train) k m 1"
    and "0 < k" and "0 < m"
    and "has_shape3 x_test k' m 1" and "has_shape3 (predict x_test) k' m 1"
  shows "\<exists>train_mae_loss threshold test_mae_loss anomalies.
       mae_loss (predict x_train) x_train = Inr train_mae_loss
     \<and> get_threshold predict x_train = Inr threshold
     \<and> threshold = Max (set (concat train_mae_loss))
     \<and> mae_loss (predict x_test) x_test = Inr test_mae_loss
     \<and> detect_anomalies predict x_train x_test = Inr anomalies
     \<and> length anomalies = k'
     \<and> (\<forall>i<k'. anomalies ! i \<longleftrightarrow> concat test_mae_loss ! i > threshold)"
proof -
  obtain train_mae_loss threshold where
    tr: "mae_loss (predict x_train) x_train = Inr train_mae_loss"
    and th: "get_threshold predict x_train = Inr threshold"
    and mx: "threshold = Max (set (concat train_mae_loss))"
    using train_loss_threshold [where predict = predict and x_train = x_train, OF assms(1-4)]
    by blast
  obtain test_mae_loss where
    te: "mae_loss (predict x_test) x_test = Inr test_mae_loss"
    and len: "length (concat test_mae_loss) = k'"
    using mae_loss_rows [OF assms(5,6,4)] by simp
  have "detect_anomalies predict x_train x_test = Inr (classify (concat test_mae_loss) threshold)"
    by (simp add: detect_anomalies_def th te)
  moreover have "length (classify (concat test_mae_loss) threshold) = k'"
    by (simp add: classify_def len)
  moreover have "classify (concat test_mae_loss) threshold ! i \<longleftrightarrow>
      concat test_mae_loss ! i > threshold" if "i < k'" for i
    using that len by (simp add: classify_def)
  ultimately show ?thesis
    using tr th mx te by blast
qed

theorem anomaly_iff_loss_exceeds_threshold_witness:
  "has_shape3 [[[1 :: real], [2]], [[2], [3]]] 2 2 1
   \<and> has_shape3 (map (map (map (\<lambda>v. 2 * v))) [[[1 :: real], [2]], [[2], [3]]]) 2 2 1
   \<and> (0 :: nat) < 2
   \<and> has_shape3 [[[1 :: real], [1]], [[4], [6]], [[2], [3]]] 3 2 1
   \<and> has_shape3 (map (map (map (\<lambda>v. 2 * v))) [[[1 :: real], [1]], [[4], [6]], [[2], [3]]]) 3 2 1
   \<and> get_threshold (map (map (map (\<lambda>v. 2 * v)))) [[[1], [2]], [[2], [3]]] = Inr (5 / 2)
   \<and> mae_loss (map (map (map (\<lambda>v. 2 * v))) [[[1], [1]], [[4], [6]], [[2], [3]]])
        [[[1], [1]], [[4], [6]], [[2], [3]]] = Inr [[1], [5], [5 / 2]]
   \<and> detect_anomalies (map (map (map (\<lambda>v. 2 * v)))) [[[1], [2]], [[2], [3]]]
        [[[1], [1]], [[4], [6]], [[2], [3]]] = Inr [False, True, False]"
proof -
  let ?p = "map (map (map (\<lambda>v :: real. 2 * v)))"
  let ?x = "[[[1 :: real], [2]], [[2], [3]]]"
  let ?y = "[[[1 :: real], [1]], [[4], [6]], [[2], [3]]]"
  have a: "has_shape3 ?x 2 2 1" and b: "has_shape3 (?p ?x) 2 2 1"
    and c: "has_shape3 ?y 3 2 1" and d: "has_shape3 (?p ?y) 3 2 1"
    by code_simp+
  have e: "get_threshold ?p ?x = Inr (5 / 2)"
    and f: "mae_loss (?p ?y) ?y = Inr [[1], [5], [5 / 2]]"
    and g: "detect_anomalies ?p ?x ?y = Inr [False, True, False]"
    by code_simp+
  have p: "(0 :: nat) < 2" by simp
  from anomaly_iff_loss_exceeds_threshold
    [where predict = ?p and x_train = ?x and x_test = ?y, OF a b p p c d]
  obtain anomalies where "detect_anomalies ?p ?x ?y = Inr anomalies"
    by (elim exE conjE)
  with a b c d e f g show ?thesis by simp
qed

text \<open>
  Claim C6. Applied to the training losses themselves, the rule \<open>loss > threshold\<close>
  flags no sample: for every training sample the comparison is false, and running the
  detection with the training windows as test windows returns a mask of \<open>False\<close> only.
\<close>

theorem training_samples_not_anomalous:
  assumes "has_shape3 x_train k m 1" and "has_shape3 (predict x_train) k m 1"
    and "0 < k" and "0 < m"
  shows "\<exists>train_mae_loss threshold.
       mae_loss (predict x_train) x_train = Inr train_mae_loss
     \<and> get_threshold predict x_train = Inr threshold
     \<and> length train_mae_loss = k
     \<and> (\<forall>s<k. \<not> train_mae_loss ! s ! 0 > threshold)
     \<and> classify (concat train_mae_loss) threshold = replicate k False
     \<and> detect_anomalies predict x_train x_train = Inr (replicate k False)"
proof -
  obtain losses threshold where
    tr: "mae_loss (predict x_train) x_train = Inr losses"
    and th: "get_threshold predict x_train = Inr threshold"
    and len: "length losses = k"
    and c: "concat losses = map (\<lambda>s. losses ! s ! 0) [0..<k]"
    and le: "\<And>s. s < k \<Longrightarrow> losses ! s ! 0 \<le> threshold"
    using train_loss_threshold [where predict = predict and x_train = x_train, OF assms]
  by blast
  have no: "\<not> losses ! s ! 0 > threshold" if "s < k" for s
    using le [OF that] by simp
  have cl: "classify (concat losses) threshold = replicate k False"
    unfolding c classify_def
    by (rule nth_equalityI) (simp_all add: no)
  have "detect_anomalies predict x_train x_train = Inr (replicate k False)"
    by (simp add: detect_anomalies_def th tr cl)
  with tr th len no cl show ?thesis by blast
qed

theorem training_samples_not_anomalous_witness:
  "has_shape3 [[[1 :: real], [2]], [[2], [3]]] 2 2 1
   \<and> has_shape3 (map (map (map (\<lambda>v. 2 * v))) [[[1 :: real], [2]], [[2], [3]]]) 2 2 1
   \<and> (0 :: nat) < 2
   \<and> detect_anomalies (map (map (map (\<lambda>v. 2 * v)))) [[[1], [2]], [[2], [3]]]
        [[[1], [2]], [[2], [3]]] = Inr [False, False]"
proof -
  let ?p = "map (map (map (\<lambda>v :: real. 2 * v)))"
  let ?x = "[[[1 :: real], [2]], [[2], [3]]]"
  have a: "has_shape3 ?x 2 2 1" and b: "has_shape3 (?p ?x) 2 2 1"
    by code_simp+
  have p: "(0 :: nat) < 2" by simp
  from training_samples_not_anomalous [where predict = ?p and x_train = ?x, OF a b p p]
  have "detect_anomalies ?p ?x ?x = Inr (replicate 2 False)"
    by (elim exE conjE)
  then have "detect_anomalies ?p ?x ?x = Inr [False, False]"
    by (simp add: numeral_2_eq_2)
  with a b show ?thesis by simp
qed

subsection \<open>Normalisation\<close>

lemma sum_list_shift:
  "sum_list (map (\<lambda>x. x - c) xs) = sum_list xs - real (length xs) * (c :: real)"
  by (induction xs) (simp_all add: algebra_simps)

lemma np_mean_centred:
  assumes "xs \<noteq> []"
  shows "np_mean (map (\<lambda>x. x - sum_list xs / real (length xs)) xs) = Inr 0"
  using assms by (simp add: np_mean_def sum_list_shift)

lemma np_std_centred:
  assumes "xs \<noteq> []"
  shows "np_std (map (\<lambda>x. x - sum_list xs / real (length xs)) xs) =
         Inr (sqrt (sum_list (map (\<lambda>x. (x - sum_list xs / real (length xs))\<^sup>2) xs)
                      / real (length xs)))"
  using assms
  by (simp add: np_std_def np_mean_centred) (simp add: np_mean_def comp_def)

lemma np_std_eq:
  assumes "xs \<noteq> []"
  shows "np_std xs =
         Inr (sqrt (sum_list (map (\<lambda>x. (x - sum_list xs / real (length xs))\<^sup>2) xs)
                      / real (length xs)))"
  using assms by (simp add: np_std_def np_mean_def comp_def)

lemma mean_square_zero_iff:
  assumes "xs \<noteq> []"
  shows "sqrt (sum_list (map (\<lambda>x. (x - c)\<^sup>2) xs) / real (length xs)) = 0
         \<longleftrightarrow> (\<forall>x\<in>set xs. x = (c :: real))"
proof -
  have "sum_list (map (\<lambda>x. (x - c)\<^sup>2) xs) = 0 \<longleftrightarrow> (\<forall>y\<in>set (map (\<lambda>x. (x - c)\<^sup>2) xs). y = 0)"
    by (rule sum_list_nonneg_eq_0_iff) auto
  then show ?thesis
    using assms by simp
qed

lemma mean_of_constant:
  assumes "xs \<noteq> []" and "\<forall>x\<in>set xs. x = (c :: real)"
  shows "sum_list xs / real (length xs) = c"
proof -
  have "xs = replicate (length xs) c"
    using assms(2) by (simp add: replicate_length_same)
  then have "sum_list xs = real (length xs) * c"
    by (metis sum_list_replicate)
  then show ?thesis
    using assms(1) by simp
qed

lemma std_zero_iff_constant:
  assumes "xs \<noteq> []"
  shows "sqrt (sum_list (map (\<lambda>x. (x - sum_list xs / real (length xs))\<^sup>2) xs)
           / real (length xs)) = 0
         \<longleftrightarrow> (\<forall>x\<in>set xs. \<forall>y\<in>set xs. x = (y :: real))"
proof -
  let ?m = "sum_list xs / real (length xs)"
  have "(\<forall>x\<in>set xs. x = ?m) \<longleftrightarrow> (\<forall>x\<in>set xs. \<forall>y\<in>set xs. x = y)"
  proof
    assume "\<forall>x\<in>set xs. x = ?m"
    then show "\<forall>x\<in>set xs. \<forall>y\<in>set xs. x = y" by metis
  next
    assume e: "\<forall>x\<in>set xs. \<forall>y\<in>set xs. x = y"
    obtain c where c: "c \<in> set xs" using assms by (cases xs) auto
    with e have "\<forall>x\<in>set xs. x = c" by blast
    then show "\<forall>x\<in>set xs. x = ?m"
      using mean_of_constant [OF assms] by simp
  qed
  then show ?thesis
    using mean_square_zero_iff [OF assms, of ?m] by simp
qed

lemma normalize_eq:
  assumes "values \<noteq> []"
  shows "normalize values =
    (let mean = sum_list values / real (length values);
         std = sqrt (sum_list (map (\<lambda>x. (x - mean)\<^sup>2) values) / real (length values))
     in if std = 0 then Inl InvalidValue
        else Inr (map (\<lambda>x. (x - mean) / std) values, mean, std))"
proof -
  have m: "np_mean values = Inr (sum_list values / real (length values))"
    using assms by (simp add: np_mean_def)
  show ?thesis
    using assms
    by (simp add: normalize_def m Let_def np_std_centred np_divide_def comp_def)
qed

text \<open>
  Claim C9. \<open>normalize\<close> and \<open>normalize_test\<close> divide by the standard deviation
  without testing it. When the training values are not all equal, the standard
  deviation is positive and \<open>normalize\<close> returns the values \<open>(x - mean) / std\<close>
  together with the mean and the standard deviation of its input; for a nonzero \<open>std\<close>,
  \<open>normalize_test\<close> returns \<open>(x - mean) / std\<close> with the mean and std it is given. For
  a constant training input the standard deviation is zero and the division by zero is
  reached; so it is in \<open>normalize_test\<close> with \<open>std = 0\<close>.
\<close>

theorem normalize_unguarded_division:
  "(values \<noteq> [] \<and> (\<exists>x\<in>set values. \<exists>y\<in>set values. x \<noteq> y) \<longrightarrow>
      (\<exists>mean std. np_mean values = Inr mean \<and> np_std values = Inr std \<and> 0 < std
         \<and> normalize values = Inr (map (\<lambda>x. (x - mean) / std) values, mean, std)))
   \<and> (std \<noteq> 0 \<longrightarrow>
        normalize_test test_values mean std = Inr (map (\<lambda>x. (x - mean) / std) test_values))
   \<and> (values \<noteq> [] \<and> (\<forall>x\<in>set values. \<forall>y\<in>set values. x = y) \<longrightarrow>
        normalize values = Inl InvalidValue)
   \<and> (test_values \<noteq> [] \<longrightarrow> normalize_test test_values mean 0 = Inl InvalidValue)"
proof -
  let ?m = "sum_list values / real (length values)"
  let ?s = "sqrt (sum_list (map (\<lambda>x. (x - ?m)\<^sup>2) values) / real (length values))"
  have varied: "\<exists>mean std. np_mean values = Inr mean \<and> np_std values = Inr std \<and> 0 < std
         \<and> normalize values = Inr (map (\<lambda>x. (x - mean) / std) values, mean, std)"
    if ne: "values \<noteq> []" and v: "\<exists>x\<in>set values. \<exists>y\<in>set values. x \<noteq> y"
  proof -
    have nz: "?s \<noteq> 0"
      using std_zero_iff_constant [OF ne] v by blast
    moreover have "0 \<le> ?s"
      by (intro real_sqrt_ge_zero divide_nonneg_nonneg sum_list_nonneg) auto
    ultimately have pos: "0 < ?s" by linarith
    have "np_mean values = Inr ?m"
      using ne by (simp add: np_mean_def)
    moreover have "np_std values = Inr ?s"
      using ne by (rule np_std_eq)
    moreover have "normalize values = Inr (map (\<lambda>x. (x - ?m) / ?s) values, ?m, ?s)"
      using nz ne by (simp add: normalize_eq [OF ne] Let_def)
    ultimately show ?thesis
      using pos by blast
  qed
  have const: "normalize values = Inl InvalidValue"
    if ne: "values \<noteq> []" and c: "\<forall>x\<in>set values. \<forall>y\<in>set values. x = y"
  proof -
    have "?s = 0"
      using std_zero_iff_constant [OF ne] c by blast
    then show ?thesis
      by (simp add: normalize_eq [OF ne] Let_def)
  qed
  have test: "normalize_test test_values mean std = Inr (map (\<lambda>x. (x - mean) / std) test_values)"
    if "std \<noteq> 0"
    using that by (simp add: normalize_test_def np_divide_def comp_def)
  have test0: "normalize_test test_values mean 0 = Inl InvalidValue" if "test_values \<noteq> []"
    using that by (simp add: normalize_test_def np_divide_def)
  from varied const test test0 show ?thesis
    by blast
qed

theorem normalize_unguarded_division_witness:
  "(1 :: real) \<in> set [1, 3, 1, 3] \<and> (3 :: real) \<in> set [1, 3, 1, 3] \<and> (1 :: real) \<noteq> 3
   \<and> (\<exists>mean std. np_mean [1, 3, 1, 3] = Inr mean \<and> np_std [1, 3, 1, 3] = Inr std \<and> 0 < std
         \<and> normalize [1, 3, 1, 3] = Inr (map (\<lambda>x. (x - mean) / std) [1, 3, 1, 3], mean, std))
   \<and> normalize [1, 3, 1, 3] = Inr ([- 1, 1, - 1, 1], 2, 1)
   \<and> normalize_test [2, 4] 2 1 = Inr [0, 2]
   \<and> set [5, 5 :: real] = {5}
   \<and> normalize [5, 5] = Inl InvalidValue
   \<and> normalize_test [2, 4] 2 0 = Inl InvalidValue"
proof -
  have a: "normalize [1, 3, 1, 3] = Inr ([- 1, 1, - 1, 1], 2, 1)"
    by (simp add: normalize_def np_mean_def np_std_def np_divide_def)
  have m: "(1 :: real) \<in> set [1, 3, 1, 3]" "(3 :: real) \<in> set [1, 3, 1, 3]" "(1 :: real) \<noteq> 3"
    by simp_all
  have v: "[1, 3, 1, 3 :: real] \<noteq> [] \<and> (\<exists>x\<in>set [1, 3, 1, 3 :: real]. \<exists>y\<in>set [1, 3, 1, 3]. x \<noteq> y)"
    by (rule conjI, simp, rule bexI [of _ 1], rule bexI [of _ 3]) simp_all
  have s: "set [5, 5 :: real] = {5}"
    by simp
  have c: "[5, 5 :: real] \<noteq> [] \<and> (\<forall>x\<in>set [5, 5 :: real]. \<forall>y\<in>set [5, 5]. x = y)"
    by simp
  have t: "[2, 4 :: real] \<noteq> []" and o: "(1 :: real) \<noteq> 0"
    by simp_all
  note w1 = normalize_unguarded_division [of "[1, 3, 1, 3]" 1 "[2, 4]" 2]
  note w2 = normalize_unguarded_division [of "[5, 5]" 1 "[2, 4]" 2]
  have f: "\<exists>mean std. np_mean [1, 3, 1, 3] = Inr mean \<and> np_std [1, 3, 1, 3] = Inr std \<and> 0 < std
         \<and> normalize [1, 3, 1, 3] = Inr (map (\<lambda>x. (x - mean) / std) [1, 3, 1, 3], mean, std)"
    using w1 [THEN conjunct1] v by (rule mp)
  have "normalize_test [2, 4] 2 1 = Inr (map (\<lambda>x. (x - 2) / 1) [2, 4])"
    using w1 [THEN conjunct2, THEN conjunct1] o by (rule mp)
  then have b: "normalize_test [2, 4] 2 1 = Inr [0, 2]"
    by simp
  have d: "normalize [5, 5] = Inl InvalidValue"
    using w2 [THEN conjunct2, THEN conjunct2, THEN conjunct1] c by (rule mp)
  have e: "normalize_test [2, 4] 2 0 = Inl InvalidValue"
    using w2 [THEN conjunct2, THEN conjunct2, THEN conjunct2] t by (rule mp)
  show ?thesis
    by (intro conjI m f a b s d e)
qed

end
